theory Spec2Isabelle
  imports Complex_Main "HOL-Library.Word"
begin

section \<open>The x402 payment client (examples/x402-python-example.py)\<close>

text \<open>
  The client class \<open>X402Client\<close> builds a signed payment intent, posts it with a job
  submission and polls the job's status. Its collaborators (the signing key, the hash,
  the encoder found in module \<open>base64\<close>, the clock and the HTTP transport) are the
  fields of an environment record; every \<open>raise\<close> of the source and every exception
  a collaborator or a built-in operation raises is a value \<open>Inl e\<close>.
\<close>

subsection \<open>Python values\<close>

type_synonym bytes = "8 word list"

text \<open>
  Values decoded from a JSON body. A JSON object is the dict it decodes to, written as an
  association list in which the first binding of a key is the one the dict has. A float is
  written as its \<open>repr\<close>, the decimal text Python prints for it; the client never
  computes with one.
\<close>

datatype json =
    JNull
  | JBool bool
  | JInt int
  | JFloat string
  | JStr string
  | JList "json list"
  | JObj "(string \<times> json) list"

text \<open>
  Exceptions. The source raises the bare class \<open>Exception\<close> with a formatted message
  at five places; each place is a constructor that carries the values interpolated into
  the message:
  \<^item> \<open>JobSubmissionFailed v\<close>: line 128, \<open>"Job submission failed: {v}"\<close>;
  \<^item> \<open>StatusFetchFailed t\<close>: line 148, \<open>"Failed to get job status: {t}"\<close>;
  \<^item> \<open>JobTerminated s e\<close>: line 178, \<open>"Job {s}: {e}"\<close>;
  \<^item> \<open>WaitTimeout j m\<close>: line 182, \<open>"Job {j} did not complete within {m}s"\<close>;
  \<^item> \<open>PricingFetchFailed t\<close>: line 201, \<open>"Failed to get pricing: {t}"\<close>.
  The others are raised by Python itself or by a library: a missing attribute, a missing
  key, a subscript or an argument of the wrong type, a negative sleep, a body that is not
  JSON, and whatever the signing key or the transport raises (\<open>LibraryError\<close>).
\<close>

datatype exn =
    JobSubmissionFailed json
  | StatusFetchFailed string
  | JobTerminated json json
  | WaitTimeout string int
  | PricingFetchFailed string
  | AttributeError string string
  | KeyError string
  | TypeError string
  | ValueError string
  | JSONDecodeError
  | LibraryError string

subsection \<open>Formatting integers and encoding text\<close>

text \<open>\<open>str(n)\<close> of an \<open>int\<close>, which is also what an f-string field \<open>{n}\<close> inserts.\<close>

fun digits :: "nat \<Rightarrow> string" where
  "digits n = (if n < 10 then [''0123456789'' ! n]
               else digits (n div 10) @ [''0123456789'' ! (n mod 10)])"

declare digits.simps [simp del]

definition py_str :: "int \<Rightarrow> string" where
  "py_str n = (if n < 0 then CHR ''-'' # digits (nat (- n)) else digits (nat n))"

text \<open>
  \<open>repr(s)\<close> of a \<open>str\<close>: between single quotes, or between double quotes when the
  text has a single quote and no double quote; the quote in use and the backslash are
  escaped with a backslash, tab, newline and carriage return are written \<open>\t\<close>,
  \<open>\n\<close>, \<open>\r\<close>, and every other character that is not printable is written
  \<open>\xhh\<close>. Below 256 the characters that are not printable are those below 32, those
  from 127 to 160, and 173.
\<close>

definition hex2 :: "nat \<Rightarrow> string" where
  "hex2 n = [''0123456789abcdef'' ! (n div 16), ''0123456789abcdef'' ! (n mod 16)]"

definition printable :: "char \<Rightarrow> bool" where
  "printable c = (let n = (of_char c :: nat) in
     (32 \<le> n \<and> n < 127) \<or> (160 < n \<and> n \<noteq> 173))"

definition repr_char :: "char \<Rightarrow> char \<Rightarrow> string" where
  "repr_char q c =
     (if c = q \<or> c = CHR 0x5C then [CHR 0x5C, c]
      else if c = CHR 0x09 then [CHR 0x5C, CHR ''t'']
      else if c = CHR 0x0A then [CHR 0x5C, CHR ''n'']
      else if c = CHR 0x0D then [CHR 0x5C, CHR ''r'']
      else if printable c then [c]
      else CHR 0x5C # CHR ''x'' # hex2 (of_char c))"

definition repr_str :: "string \<Rightarrow> string" where
  "repr_str s =
     (let q = (if CHR 0x27 \<in> set s \<and> CHR 0x22 \<notin> set s then CHR 0x22 else CHR 0x27)
      in q # concat (map (repr_char q) s) @ [q])"

text \<open>
  \<open>repr(v)\<close> and \<open>str(v)\<close> of a decoded JSON value; an f-string field \<open>{v}\<close>
  inserts \<open>str(v)\<close>. The two differ on a \<open>str\<close> only. A list prints the
  \<open>repr\<close> of its elements, a dict that of its keys and values, joined by a comma and a
  space.
\<close>

fun join_comma :: "string list \<Rightarrow> string" where
  "join_comma [] = []"
| "join_comma [x] = x"
| "join_comma (x # y # zs) = x @ '', '' @ join_comma (y # zs)"

fun dict_items_from :: "string list \<Rightarrow> (string \<times> 'a) list \<Rightarrow> (string \<times> 'a) list" where
  "dict_items_from seen [] = []"
| "dict_items_from seen ((k, v) # kvs) =
     (if k \<in> set seen then dict_items_from seen kvs
      else (k, v) # dict_items_from (k # seen) kvs)"

definition dict_items :: "(string \<times> 'a) list \<Rightarrow> (string \<times> 'a) list" where
  \<comment> \<open>the items of the dict an association list stands for\<close>
  "dict_items kvs = dict_items_from [] kvs"

fun py_repr :: "json \<Rightarrow> string" where
  "py_repr JNull = ''None''"
| "py_repr (JBool b) = (if b then ''True'' else ''False'')"
| "py_repr (JInt n) = py_str n"
| "py_repr (JFloat r) = r"
| "py_repr (JStr s) = repr_str s"
| "py_repr (JList xs) = ''['' @ join_comma (map py_repr xs) @ '']''"
| "py_repr (JObj kvs) =
     ''{'' @ join_comma (map (\<lambda>p. repr_str (fst p) @ '': '' @ snd p)
                          (dict_items (map (\<lambda>p. (fst p, py_repr (snd p))) kvs))) @ ''}''"

definition py_str_json :: "json \<Rightarrow> string" where
  "py_str_json v = (case v of JStr s \<Rightarrow> s | _ \<Rightarrow> py_repr v)"

text \<open>
  What \<open>json.dumps\<close>, which writes the body of a request, writes for \<open>None\<close>, a
  \<open>bool\<close> or an \<open>int\<close>.
\<close>

definition json_literal :: "json \<Rightarrow> string option" where
  "json_literal v = (case v of
       JNull \<Rightarrow> Some ''null''
     | JBool b \<Rightarrow> Some (if b then ''true'' else ''false'')
     | JInt n \<Rightarrow> Some (py_str n)
     | _ \<Rightarrow> None)"

text \<open>
  \<open>s.encode()\<close>: UTF-8. A \<open>char\<close> holds a code point below 256; those below 128 are
  one byte, the others two.
\<close>

definition utf8_char :: "char \<Rightarrow> bytes" where
  "utf8_char c = (let n = (of_char c :: nat) in
     if n < 128 then [of_nat n]
     else [of_nat (192 + n div 64), of_nat (128 + n mod 64)])"

definition str_encode :: "string \<Rightarrow> bytes" where
  "str_encode s = concat (map utf8_char s)"

text \<open>
  \<open>int(x)\<close> of a float truncates towards zero. Clock readings are rational numbers of
  seconds.
\<close>

definition py_int :: "rat \<Rightarrow> int" where
  "py_int x = (if 0 \<le> x then \<lfloor>x\<rfloor> else \<lceil>x\<rceil>)"

subsection \<open>\<open>datetime.isoformat()\<close>\<close>

text \<open>
  A naive \<open>datetime\<close>, as \<open>datetime.datetime.utcnow()\<close> returns it. \<open>isoformat()\<close>
  with the default \<open>timespec='auto'\<close> prints \<open>YYYY-MM-DDTHH:MM:SS\<close> and appends
  \<open>.ffffff\<close> exactly when the microsecond field is not zero.
\<close>

record datetime =
  year :: nat
  month :: nat
  day :: nat
  hour :: nat
  minute :: nat
  second :: nat
  microsecond :: nat

definition zero_pad :: "nat \<Rightarrow> nat \<Rightarrow> string" where
  \<comment> \<open>the format \<open>%0wd\<close>\<close>
  "zero_pad w n = replicate (w - length (digits n)) (CHR ''0'') @ digits n"

definition iso_seconds :: "datetime \<Rightarrow> string" where
  \<comment> \<open>the format \<open>%04d-%02d-%02dT%02d:%02d:%02d\<close>\<close>
  "iso_seconds d =
     zero_pad 4 (year d) @ ''-'' @ zero_pad 2 (month d) @ ''-'' @ zero_pad 2 (day d) @ ''T'' @
     zero_pad 2 (hour d) @ '':'' @ zero_pad 2 (minute d) @ '':'' @ zero_pad 2 (second d)"

definition isoformat :: "datetime \<Rightarrow> string" where
  "isoformat d =
     iso_seconds d @ (if microsecond d \<noteq> 0 then ''.'' @ zero_pad 6 (microsecond d) else [])"

text \<open>The ranges of the fields of a \<open>datetime\<close> object.\<close>

definition valid_datetime :: "datetime \<Rightarrow> bool" where
  "valid_datetime d = (1 \<le> year d \<and> year d \<le> 9999 \<and> 1 \<le> month d \<and> month d \<le> 12 \<and>
     1 \<le> day d \<and> day d \<le> 31 \<and> hour d < 24 \<and> minute d < 60 \<and> second d < 60 \<and>
     microsecond d < 1000000)"

subsection \<open>The client and its environment\<close>

text \<open>
  \<open>api_url\<close> and \<open>public_key\<close> are the attributes set by \<open>__init__\<close>;
  \<open>signing_key_sign m\<close> is \<open>self.signing_key.sign(m).signature\<close>, or the name of
  the exception the key raises. \<open>utcnow\<close> and \<open>time_time\<close> are what the two clock
  calls of a submission return, \<open>sha256 m\<close> is \<open>hashlib.sha256(m).digest()\<close>. \<open>base64_b58encode\<close> is the
  attribute \<open>b58encode\<close> of module \<open>base64\<close> as the interpreter finds it when the call
  is evaluated: \<open>None\<close> when the module has no such attribute, otherwise the function
  bound to it, given here with the \<open>.decode()\<close> of its result applied. \<open>requests_get\<close>
  and \<open>requests_post\<close> are the transport: a response, or the name of the exception
  raised. An exception of a collaborator reaches the caller as \<open>LibraryError\<close>.
\<close>

record response =
  resp_ok :: bool
  resp_text :: string
  resp_json :: "json option"

record payment_intent =
  intent_id :: string
  payer :: string
  amount :: json
  jobId :: string
  timestamp :: string
  expiresIn :: int
  signature :: string

record submission =
  payment :: payment_intent
  jobType :: string
  config :: json

record request =
  url :: string
  body :: submission
  headers :: "(string \<times> string) list"
  timeout :: nat

record env =
  api_url :: string
  public_key :: string
  signing_key_sign :: "bytes \<Rightarrow> string + bytes"
  utcnow :: datetime
  time_time :: rat
  sha256 :: "bytes \<Rightarrow> bytes"
  base64_b58encode :: "(bytes \<Rightarrow> string) option"
  requests_get :: "string \<Rightarrow> string + response"
  requests_post :: "request \<Rightarrow> string + response"

text \<open>
  The standard library's module \<open>base64\<close> defines the encoders \<open>b16encode\<close>,
  \<open>b32encode\<close>, \<open>b32hexencode\<close>, \<open>b64encode\<close>, \<open>standard_b64encode\<close>,
  \<open>urlsafe_b64encode\<close>, \<open>a85encode\<close>, \<open>b85encode\<close>, \<open>encode\<close> and
  \<open>encodebytes\<close>, and nothing named \<open>b58encode\<close>.
\<close>

definition stdlib_base64_b58encode :: "(bytes \<Rightarrow> string) option" where
  "stdlib_base64_b58encode = None"

subsection \<open>\<open>create_payment_intent\<close>\<close>

text \<open>The f-string of line 55.\<close>

definition payment_message :: "string \<Rightarrow> json \<Rightarrow> string \<Rightarrow> string \<Rightarrow> int \<Rightarrow> string" where
  "payment_message pk amt job_id ts expires_in =
     ''x402-payment:'' @ pk @ '':'' @ py_str_json amt @ '':'' @ job_id @ '':'' @ ts @ '':'' @
     py_str expires_in"

text \<open>
  The annotation \<open>amount: int\<close> is not checked when the program runs: the amount is
  whatever value the caller passes, and \<open>submit_job\<close> passes what it read from the
  pricing body. The third parameter is optional, with default 300: \<open>None\<close> is a call
  that omits it.
\<close>

definition create_payment_intent :: "env \<Rightarrow> json \<Rightarrow> string \<Rightarrow> int option \<Rightarrow> exn + payment_intent" where
  "create_payment_intent E amt job_id expires_opt =
     (let expires_in = (case expires_opt of None \<Rightarrow> 300 | Some e \<Rightarrow> e);
          ts = isoformat (utcnow E) @ ''Z'';
          message = payment_message (public_key E) amt job_id ts expires_in
      in case signing_key_sign E (str_encode message) of
           Inl e \<Rightarrow> Inl (LibraryError e)
         | Inr sig \<Rightarrow>
            (case base64_b58encode E of
               None \<Rightarrow> Inl (AttributeError ''base64'' ''b58encode'')
             | Some b58encode \<Rightarrow>
                 let signature_base58 = b58encode sig;
                     intent_id_hash = take 16 (sha256 E (str_encode message));
                     iid = b58encode intent_id_hash
                 in Inr \<lparr>intent_id = iid, payer = public_key E, amount = amt, jobId = job_id,
                         timestamp = ts, expiresIn = expires_in,
                         signature = signature_base58\<rparr>))"

subsection \<open>Reading decoded JSON\<close>

text \<open>\<open>response.json()\<close>: the decoded body, or the decoder's exception.\<close>

definition response_json :: "response \<Rightarrow> exn + json" where
  "response_json r = (case resp_json r of None \<Rightarrow> Inl JSONDecodeError | Some v \<Rightarrow> Inr v)"

definition type_name :: "json \<Rightarrow> string" where
  "type_name v = (case v of JNull \<Rightarrow> ''NoneType'' | JBool _ \<Rightarrow> ''bool'' | JInt _ \<Rightarrow> ''int''
     | JFloat _ \<Rightarrow> ''float'' | JStr _ \<Rightarrow> ''str'' | JList _ \<Rightarrow> ''list'' | JObj _ \<Rightarrow> ''dict'')"

text \<open>\<open>v[k]\<close> with a string key: only a dict can answer, and only for a key it has.\<close>

definition subscript :: "json \<Rightarrow> string \<Rightarrow> exn + json" where
  "subscript v k = (case v of
       JObj kvs \<Rightarrow> (case map_of kvs k of None \<Rightarrow> Inl (KeyError k) | Some x \<Rightarrow> Inr x)
     | _ \<Rightarrow> Inl (TypeError (type_name v)))"

text \<open>\<open>v.get(k, d)\<close>: a method of dict alone among the decoded types.\<close>

definition dict_get :: "json \<Rightarrow> string \<Rightarrow> json \<Rightarrow> exn + json" where
  "dict_get v k d = (case v of
       JObj kvs \<Rightarrow> Inr (case map_of kvs k of None \<Rightarrow> d | Some x \<Rightarrow> x)
     | _ \<Rightarrow> Inl (AttributeError (type_name v) ''get''))"

subsection \<open>\<open>get_pricing\<close> and \<open>submit_job\<close>\<close>

definition get_pricing :: "env \<Rightarrow> string option \<Rightarrow> exn + json" where
  "get_pricing E job_type =
     (let u = api_url E @ ''/x402/pricing'';
          u' = (case job_type of
                  None \<Rightarrow> u
                | Some jt \<Rightarrow> if jt \<noteq> [] then u @ ''?jobType='' @ jt else u)
      in case requests_get E u' of
           Inl e \<Rightarrow> Inl (LibraryError e)
         | Inr r \<Rightarrow>
             if \<not> resp_ok r then Inl (PricingFetchFailed (resp_text r))
             else response_json r)"

text \<open>The dict \<open>headers\<close> of lines 107 to 116.\<close>

definition submit_headers :: "payment_intent \<Rightarrow> (string \<times> string) list" where
  "submit_headers intent =
     [(''Content-Type'', ''application/json''),
      (''X-Payment-Intent-ID'', intent_id intent),
      (''X-Payer'', payer intent),
      (''X-Payment-Signature'', signature intent),
      (''X-Payment-Amount'', py_str_json (amount intent)),
      (''X-Job-ID'', jobId intent),
      (''X-Timestamp'', timestamp intent),
      (''X-Expires-In'', py_str (expiresIn intent))]"

text \<open>The arguments of \<open>requests.post\<close>, lines 100 to 104 and 119 to 124.\<close>

definition submit_request :: "env \<Rightarrow> payment_intent \<Rightarrow> string \<Rightarrow> json \<Rightarrow> request" where
  "submit_request E intent job_type cfg =
     \<lparr>url = api_url E @ ''/x402'',
      body = \<lparr>payment = intent, jobType = job_type, config = cfg\<rparr>,
      headers = submit_headers intent,
      timeout = 30\<rparr>"

text \<open>What \<open>submit_job\<close> does with the response, lines 126 to 130.\<close>

definition submit_response :: "response \<Rightarrow> exn + json" where
  "submit_response r =
     (if \<not> resp_ok r then
        (case response_json r of
           Inl e \<Rightarrow> Inl e
         | Inr error \<Rightarrow>
            (case dict_get error ''message'' (JStr (resp_text r)) of
               Inl e \<Rightarrow> Inl e
             | Inr m \<Rightarrow> Inl (JobSubmissionFailed m)))
      else response_json r)"

text \<open>
  \<open>submit_job\<close> returns the requests it has posted (none or one) beside its result.
  The price read from the pricing body is passed on as it is, whatever its type.
\<close>

definition submit_job :: "env \<Rightarrow> string \<Rightarrow> json \<Rightarrow> request list \<times> (exn + json)" where
  "submit_job E job_type cfg =
     (case get_pricing E (Some job_type) of
        Inl e \<Rightarrow> ([], Inl e)
      | Inr pricing \<Rightarrow>
     (case subscript pricing ''minimumPayment'' of
        Inl e \<Rightarrow> ([], Inl e)
      | Inr amt \<Rightarrow>
         (case create_payment_intent E amt (''job_'' @ py_str (py_int (time_time E))) None of
            Inl e \<Rightarrow> ([], Inl e)
          | Inr intent \<Rightarrow>
             (let req = submit_request E intent job_type cfg
              in ([req], case requests_post E req of
                           Inl e \<Rightarrow> Inl (LibraryError e)
                         | Inr r \<Rightarrow> submit_response r)))))"

subsection \<open>\<open>get_job_status\<close> and \<open>wait_for_completion\<close>\<close>

text \<open>
  Polling reads a clock and a server that change between calls: \<open>clock\<close> lists what the
  successive calls of \<open>time.time()\<close> return and \<open>server\<close> what the successive status
  requests get (a response, or the name of the transport's exception). A run returns its
  effects in order beside its result; the result is \<open>None\<close> when the lists end before
  the call returns.

  A clock reading is a float, here the rational number it stands for. The difference
  \<open>time.time() - start_time\<close> of line 171 is computed by the machine and rounded to a
  float: \<open>float_sub\<close> is that subtraction, a parameter of the loop. Comparing its
  result with the integer \<open>max_wait\<close> is exact.
\<close>

datatype event = Clock rat | Get string | Sleep int

type_synonym reply = "string + response"

definition status_url :: "string \<Rightarrow> string \<Rightarrow> string" where
  "status_url api job_id = api @ ''/x402/jobs/'' @ job_id"

definition get_job_status :: "reply \<Rightarrow> exn + json" where
  "get_job_status rp = (case rp of
       Inl e \<Rightarrow> Inl (LibraryError e)
     | Inr r \<Rightarrow>
         if \<not> resp_ok r then Inl (StatusFetchFailed (resp_text r))
         else response_json r)"

text \<open>
  The body of the \<open>while\<close> loop, lines 172 to 180, applied to what the status request
  got: \<open>Some\<close> of what the call returns or raises when the body ends the call,
  \<open>None\<close> when it has slept and the loop goes on. \<open>time.sleep\<close> raises
  \<open>ValueError\<close> on a negative argument.
\<close>

definition loop_body :: "int \<Rightarrow> reply \<Rightarrow> (exn + json) option" where
  "loop_body poll_interval rp =
     (case get_job_status rp of
        Inl e \<Rightarrow> Some (Inl e)
      | Inr status \<Rightarrow>
         (case subscript status ''status'' of
            Inl e \<Rightarrow> Some (Inl e)
          | Inr s \<Rightarrow>
              if s = JStr ''completed'' then Some (Inr status)
              else if s \<in> set [JStr ''failed'', JStr ''cancelled''] then
                (case dict_get status ''error'' (JStr ''Unknown'') of
                   Inl e \<Rightarrow> Some (Inl e)
                 | Inr err \<Rightarrow> Some (Inl (JobTerminated s err)))
              else if poll_interval < 0 then
                Some (Inl (ValueError ''sleep length must be non-negative''))
              else None))"

text \<open>
  The loop of lines 171 to 182, one pass for each clock reading: the condition is
  evaluated first, then the body; line 182 is reached when the condition fails.
\<close>

fun wait_loop :: "(rat \<Rightarrow> rat \<Rightarrow> rat) \<Rightarrow> string \<Rightarrow> string \<Rightarrow> int \<Rightarrow> int \<Rightarrow> rat \<Rightarrow> rat list \<Rightarrow> reply list
    \<Rightarrow> event list \<times> (exn + json) option" where
  "wait_loop float_sub api job_id poll_interval max_wait start_time [] server = ([], None)"
| "wait_loop float_sub api job_id poll_interval max_wait start_time (t # clock) server =
     (if float_sub t start_time < of_int max_wait then
        (case server of
           [] \<Rightarrow> ([Clock t], None)
         | rp # server' \<Rightarrow>
            (case loop_body poll_interval rp of
               Some r \<Rightarrow> ([Clock t, Get (status_url api job_id)], Some r)
             | None \<Rightarrow>
                (case wait_loop float_sub api job_id poll_interval max_wait start_time clock server' of
                   (tr, res) \<Rightarrow>
                     (Clock t # Get (status_url api job_id) # Sleep poll_interval # tr, res))))
      else ([Clock t], Some (Inl (WaitTimeout job_id max_wait))))"

text \<open>
  \<open>wait_for_completion\<close> reads the clock once for \<open>start_time\<close> and enters the loop.
  Callers that omit them pass 5 for \<open>poll_interval\<close> and 300 for \<open>max_wait\<close>.
\<close>

definition wait_for_completion :: "(rat \<Rightarrow> rat \<Rightarrow> rat) \<Rightarrow> string \<Rightarrow> string \<Rightarrow> int \<Rightarrow> int \<Rightarrow> rat list \<Rightarrow> reply list
    \<Rightarrow> event list \<times> (exn + json) option" where
  "wait_for_completion float_sub api job_id poll_interval max_wait clock server =
     (case clock of
        [] \<Rightarrow> ([], None)
      | start_time # clock' \<Rightarrow>
          (case wait_loop float_sub api job_id poll_interval max_wait start_time clock' server of
             (tr, res) \<Rightarrow> (Clock start_time # tr, res)))"

text \<open>
  Reading a run: \<open>polls\<close> counts its status requests, and \<open>passes\<close> is what the
  passes of the loop that went on to the next one leave in it: a clock reading, a status
  request and a sleep each.
\<close>

fun is_get :: "event \<Rightarrow> bool" where
  "is_get (Get u) = True"
| "is_get (Clock t) = False"
| "is_get (Sleep d) = False"

definition polls :: "event list \<Rightarrow> nat" where
  "polls tr = length (filter is_get tr)"

definition passes :: "string \<Rightarrow> string \<Rightarrow> int \<Rightarrow> rat list \<Rightarrow> event list" where
  "passes api job_id poll_interval ts =
     concat (map (\<lambda>t. [Clock t, Get (status_url api job_id), Sleep poll_interval]) ts)"

subsection \<open>Sample environments\<close>

text \<open>
  Concrete environments on which the theorems below are run. The key, the hash and the
  encoder of \<open>demo_env\<close> are small stand-ins (the last bytes of the message reversed, the
  message reversed, one base-58 digit for each byte); \<open>stock_env\<close> has the module
  \<open>base64\<close> of the standard library.
\<close>

definition demo_now :: datetime where
  "demo_now = \<lparr>year = 2024, month = 1, day = 2, hour = 3, minute = 4, second = 5, microsecond = 678901\<rparr>"

definition demo_b58 :: "bytes \<Rightarrow> string" where
  "demo_b58 b = map (\<lambda>w. ''123456789ABCDEFGHJKLMNPQRSTUVWXYZabcdefghijkmnopqrstuvwxyz'' ! (unat w mod 58)) b"

definition demo_pricing :: response where
  "demo_pricing = \<lparr>resp_ok = True, resp_text = ''{\"minimumPayment\": 1000}'',
     resp_json = Some (JObj [(''minimumPayment'', JInt 1000)])\<rparr>"

definition demo_accepted :: response where
  "demo_accepted = \<lparr>resp_ok = True, resp_text = ''{\"jobId\": \"job_1704164645\", \"status\": \"pending\"}'',
     resp_json = Some (JObj [(''jobId'', JStr ''job_1704164645''), (''status'', JStr ''pending'')])\<rparr>"

definition demo_env :: env where
  "demo_env = \<lparr>api_url = ''http://localhost:3000/api'', public_key = ''PAYER'',
     signing_key_sign = (\<lambda>m. Inr (take 4 (rev m))), utcnow = demo_now,
     time_time = 1704164645 + 1 / 2, sha256 = rev,
     base64_b58encode = Some demo_b58,
     requests_get = (\<lambda>u. Inr demo_pricing), requests_post = (\<lambda>r. Inr demo_accepted)\<rparr>"

definition stock_env :: env where
  "stock_env = demo_env\<lparr>base64_b58encode := stdlib_base64_b58encode\<rparr>"

text \<open>A collaborator that answers on one argument only, and with \<open>d\<close> on all others.\<close>

definition answering_only :: "'a \<Rightarrow> 'b \<Rightarrow> ('a \<Rightarrow> 'b) \<Rightarrow> 'a \<Rightarrow> 'b" where
  "answering_only x d f = (\<lambda>y. if y = x then f y else d)"

text \<open>
  A submission: the job configuration, the request \<open>demo_env\<close> posts for it, a second
  environment whose clock reads later in the same second, a server that answers the
  submission with a gateway's HTML error page, and a pricing service whose price is the
  JSON value \<open>true\<close>, with the request posted then.
\<close>

definition demo_config :: json where
  "demo_config = JObj [(''model'', JStr ''llama-3-70b'')]"

definition demo_env_later :: env where
  "demo_env_later = demo_env\<lparr>time_time := 1704164645 + 3 / 4\<rparr>"

definition bad_gateway :: response where
  "bad_gateway = \<lparr>resp_ok = False, resp_text = ''<html>502 Bad Gateway</html>'', resp_json = None\<rparr>"

definition bad_gateway_env :: env where
  "bad_gateway_env = demo_env\<lparr>requests_post := (\<lambda>r. Inr bad_gateway)\<rparr>"

definition true_pricing :: response where
  "true_pricing = \<lparr>resp_ok = True, resp_text = ''{\"minimumPayment\": true}'',
     resp_json = Some (JObj [(''minimumPayment'', JBool True)])\<rparr>"

definition true_price_env :: env where
  "true_price_env = demo_env\<lparr>requests_get := (\<lambda>u. Inr true_pricing)\<rparr>"

definition true_price_request :: request where
  "true_price_request =
     \<lparr>url = ''http://localhost:3000/api/x402'',
      body = \<lparr>payment =
               \<lparr>intent_id = ''qqt1Zrqzyxwovq1u'', payer = ''PAYER'', amount = JBool True,
                jobId = ''job_1704164645'', timestamp = ''2024-01-02T03:04:05.678901Z'',
                expiresIn = 300, signature = ''qqt1''\<rparr>,
             jobType = ''inference_medium'', config = demo_config\<rparr>,
      headers =
        [(''Content-Type'', ''application/json''),
         (''X-Payment-Intent-ID'', ''qqt1Zrqzyxwovq1u''),
         (''X-Payer'', ''PAYER''),
         (''X-Payment-Signature'', ''qqt1''),
         (''X-Payment-Amount'', ''True''),
         (''X-Job-ID'', ''job_1704164645''),
         (''X-Timestamp'', ''2024-01-02T03:04:05.678901Z''),
         (''X-Expires-In'', ''300'')],
      timeout = 30\<rparr>"

definition demo_submitted_intent :: payment_intent where
  "demo_submitted_intent =
     \<lparr>intent_id = ''qqt1Zrqzyxwovq1u'', payer = ''PAYER'', amount = JInt 1000,
      jobId = ''job_1704164645'', timestamp = ''2024-01-02T03:04:05.678901Z'', expiresIn = 300,
      signature = ''qqt1''\<rparr>"

definition demo_headers :: "(string \<times> string) list" where
  "demo_headers =
     [(''Content-Type'', ''application/json''),
      (''X-Payment-Intent-ID'', ''qqt1Zrqzyxwovq1u''),
      (''X-Payer'', ''PAYER''),
      (''X-Payment-Signature'', ''qqt1''),
      (''X-Payment-Amount'', ''1000''),
      (''X-Job-ID'', ''job_1704164645''),
      (''X-Timestamp'', ''2024-01-02T03:04:05.678901Z''),
      (''X-Expires-In'', ''300'')]"

definition demo_request :: request where
  "demo_request =
     \<lparr>url = ''http://localhost:3000/api/x402'',
      body = \<lparr>payment = demo_submitted_intent, jobType = ''inference_medium'', config = demo_config\<rparr>,
      headers = demo_headers, timeout = 30\<rparr>"

definition demo_request_later :: request where
  "demo_request_later =
     \<lparr>url = ''http://localhost:3000/api/x402'',
      body = \<lparr>payment = demo_submitted_intent, jobType = ''training_small'', config = JNull\<rparr>,
      headers = demo_headers, timeout = 30\<rparr>"

text \<open>Two answers of the status endpoint, and the base URL the polling samples use.\<close>

definition pending_reply :: reply where
  "pending_reply = Inr \<lparr>resp_ok = True, resp_text = ''{\"status\": \"pending\"}'',
     resp_json = Some (JObj [(''status'', JStr ''pending'')])\<rparr>"

definition failed_reply :: reply where
  "failed_reply = Inr \<lparr>resp_ok = True,
     resp_text = ''{\"status\": \"failed\", \"error\": \"out of memory\"}'',
     resp_json = Some (JObj [(''status'', JStr ''failed''), (''error'', JStr ''out of memory'')])\<rparr>"

definition demo_api :: string where
  "demo_api = ''http://localhost:3000/api''"

text \<open>
  The clock readings of the polling samples are multiples of a quarter of a second well
  below \<open>2 ^ 50\<close>; each of them and each of their differences is a float, so that the
  machine's subtraction returns the difference itself.
\<close>

definition exact_sub :: "rat \<Rightarrow> rat \<Rightarrow> rat" where
  "exact_sub a b = a - b"

definition completed_reply :: reply where
  "completed_reply = Inr \<lparr>resp_ok = True,
     resp_text = ''{\"status\": \"completed\", \"result\": 42}'',
     resp_json = Some (JObj [(''status'', JStr ''completed''), (''result'', JInt 42)])\<rparr>"

section \<open>Properties\<close>

subsection \<open>Evaluating the samples\<close>

lemma py_str_json_simps [simp]:
  "py_str_json JNull = ''None''"
  "py_str_json (JBool b) = (if b then ''True'' else ''False'')"
  "py_str_json (JInt n) = py_str n"
  "py_str_json (JFloat x) = x"
  "py_str_json (JStr s) = s"
  by (simp_all add: py_str_json_def)

lemma demo_message: "payment_message ''PAYER'' (JInt 1000) ''job_1'' ''2024-01-02T03:04:05.678901Z'' 300 = 
   ''x402-payment:PAYER:1000:job_1:2024-01-02T03:04:05.678901Z:300''"
  by (simp add: payment_message_def py_str_def digits.simps)

lemma demo_timestamp: "isoformat demo_now @ ''Z'' = ''2024-01-02T03:04:05.678901Z''"
  by (simp add: isoformat_def iso_seconds_def zero_pad_def demo_now_def digits.simps)

lemma demo_intent: "create_payment_intent demo_env (JInt 1000) ''job_1'' None =
  Inr \<lparr>intent_id = ''qqt1Zrqzyxwovq1u'', payer = ''PAYER'', amount = JInt 1000, jobId = ''job_1'',
     timestamp = ''2024-01-02T03:04:05.678901Z'', expiresIn = 300, signature = ''qqt1''\<rparr>"
  unfolding create_payment_intent_def demo_env_def
  by (simp add: Let_def demo_message demo_timestamp str_encode_def utf8_char_def demo_b58_def)

lemma create_payment_intent_InrD:
  assumes "create_payment_intent E amt job_id expires_opt = Inr i"
  shows "\<exists>sig b58. 
     signing_key_sign E (str_encode (payment_message (public_key E) amt job_id
         (isoformat (utcnow E) @ ''Z'') (case expires_opt of None \<Rightarrow> 300 | Some e \<Rightarrow> e))) = Inr sig \<and>
     base64_b58encode E = Some b58 \<and>
     i = \<lparr>intent_id = b58 (take 16 (sha256 E (str_encode (payment_message (public_key E) amt job_id
         (isoformat (utcnow E) @ ''Z'') (case expires_opt of None \<Rightarrow> 300 | Some e \<Rightarrow> e))))),
          payer = public_key E, amount = amt, jobId = job_id,
          timestamp = isoformat (utcnow E) @ ''Z'',
          expiresIn = (case expires_opt of None \<Rightarrow> 300 | Some e \<Rightarrow> e),
          signature = b58 sig\<rparr>"
  using assms unfolding create_payment_intent_def Let_def
  by (auto split: sum.splits option.splits)

lemma demo_py_int: "py_int (time_time demo_env) = 1704164645"
  "py_int (time_time demo_env_later) = 1704164645"
  by (simp_all add: demo_env_def demo_env_later_def py_int_def floor_eq_iff)

lemma demo_py_str: "py_str 1704164645 = ''1704164645''" "py_str 1000 = ''1000''" "py_str 300 = ''300''"
  by (simp_all add: py_str_def digits.simps)

lemma demo_job_id: "''job_'' @ py_str (py_int (time_time demo_env)) = ''job_1704164645''"
  by (simp add: demo_py_int demo_py_str)

lemma demo_job_id_later: "''job_'' @ py_str (py_int (time_time demo_env_later)) = ''job_1704164645''"
  by (simp add: demo_py_int demo_py_str)

lemma demo_message_submitted:
  "payment_message ''PAYER'' (JInt 1000) ''job_1704164645'' ''2024-01-02T03:04:05.678901Z'' 300 =
   ''x402-payment:PAYER:1000:job_1704164645:2024-01-02T03:04:05.678901Z:300''"
  by (simp add: payment_message_def py_str_def digits.simps)

lemma demo_intent_submitted:
  "create_payment_intent demo_env (JInt 1000) ''job_1704164645'' None = Inr demo_submitted_intent"
  unfolding create_payment_intent_def demo_env_def demo_submitted_intent_def
  by (simp add: Let_def demo_message_submitted demo_timestamp str_encode_def utf8_char_def demo_b58_def)

lemma demo_intent_later:
  "create_payment_intent demo_env_later (JInt 1000) ''job_1704164645'' None = Inr demo_submitted_intent"
  unfolding create_payment_intent_def demo_env_def demo_env_later_def demo_submitted_intent_def
  by (simp add: Let_def demo_message_submitted demo_timestamp str_encode_def utf8_char_def demo_b58_def)

lemma demo_intent_bad_gateway:
  "create_payment_intent bad_gateway_env (JInt 1000) ''job_1704164645'' None = Inr demo_submitted_intent"
  unfolding create_payment_intent_def demo_env_def bad_gateway_env_def demo_submitted_intent_def
  by (simp add: Let_def demo_message_submitted demo_timestamp str_encode_def utf8_char_def demo_b58_def)

lemma demo_pricing_get: "get_pricing demo_env (Some ''inference_medium'') = Inr (JObj [(''minimumPayment'', JInt 1000)])"
  by (simp add: get_pricing_def demo_env_def demo_pricing_def response_json_def)

lemma demo_submit:
  "submit_job demo_env ''inference_medium'' demo_config =
     ([demo_request], Inr (JObj [(''jobId'', JStr ''job_1704164645''), (''status'', JStr ''pending'')]))"
proof -
  have p: "get_pricing demo_env (Some ''inference_medium'') = Inr (JObj [(''minimumPayment'', JInt 1000)])"
    by (simp add: get_pricing_def demo_env_def demo_pricing_def response_json_def)
  have q: "requests_post demo_env = (\<lambda>r. Inr demo_accepted)" "api_url demo_env = ''http://localhost:3000/api''"
    by (simp_all add: demo_env_def)
  have r: "submit_request demo_env demo_submitted_intent ''inference_medium'' demo_config = demo_request"
    by (simp add: submit_request_def submit_headers_def q demo_request_def demo_headers_def
        demo_submitted_intent_def demo_py_str)
  have a: "submit_response demo_accepted = Inr (JObj [(''jobId'', JStr ''job_1704164645''), (''status'', JStr ''pending'')])"
    by (simp add: submit_response_def demo_accepted_def response_json_def)
  show ?thesis
    unfolding submit_job_def p demo_job_id
    by (simp add: subscript_def demo_intent_submitted Let_def r q a)
qed

lemma demo_submit_later:
  "submit_job demo_env_later ''training_small'' JNull =
     ([demo_request_later], Inr (JObj [(''jobId'', JStr ''job_1704164645''), (''status'', JStr ''pending'')]))"
proof -
  have p: "get_pricing demo_env_later (Some ''training_small'') = Inr (JObj [(''minimumPayment'', JInt 1000)])"
    by (simp add: get_pricing_def demo_env_def demo_env_later_def demo_pricing_def response_json_def)
  have q: "requests_post demo_env_later = (\<lambda>r. Inr demo_accepted)" "api_url demo_env_later = ''http://localhost:3000/api''"
    by (simp_all add: demo_env_def demo_env_later_def)
  have r: "submit_request demo_env_later demo_submitted_intent ''training_small'' JNull = demo_request_later"
    by (simp add: submit_request_def submit_headers_def q demo_request_later_def demo_headers_def
        demo_submitted_intent_def demo_py_str)
  have a: "submit_response demo_accepted = Inr (JObj [(''jobId'', JStr ''job_1704164645''), (''status'', JStr ''pending'')])"
    by (simp add: submit_response_def demo_accepted_def response_json_def)
  show ?thesis
    unfolding submit_job_def p demo_job_id_later
    by (simp add: subscript_def demo_intent_later Let_def r q a)
qed

lemma demo_submit_bad_gateway:
  "submit_job bad_gateway_env ''inference_medium'' demo_config = ([demo_request], Inl JSONDecodeError)"
proof -
  have p: "get_pricing bad_gateway_env (Some ''inference_medium'') = Inr (JObj [(''minimumPayment'', JInt 1000)])"
    by (simp add: get_pricing_def demo_env_def bad_gateway_env_def demo_pricing_def response_json_def)
  have q: "requests_post bad_gateway_env = (\<lambda>r. Inr bad_gateway)"
    "api_url bad_gateway_env = ''http://localhost:3000/api''"
    "time_time bad_gateway_env = time_time demo_env"
    by (simp_all add: demo_env_def bad_gateway_env_def)
  have r: "submit_request bad_gateway_env demo_submitted_intent ''inference_medium'' demo_config = demo_request"
    by (simp add: submit_request_def submit_headers_def q demo_request_def demo_headers_def
        demo_submitted_intent_def demo_py_str)
  have a: "submit_response bad_gateway = Inl JSONDecodeError"
    by (simp add: submit_response_def bad_gateway_def response_json_def)
  show ?thesis
    unfolding submit_job_def p q(3) demo_job_id
    by (simp add: subscript_def demo_intent_bad_gateway Let_def r q a)
qed

subsection \<open>The payment intent\<close>

text \<open>
  C1. Whenever \<open>create_payment_intent\<close> returns an intent, the message it has signed
  and hashed is \<open>"x402-payment:" + payer + ":" + str(amount) + ":" + jobId + ":" +
  timestamp + ":" + str(expiresIn)\<close> over the fields of that intent, joined by single
  colons and otherwise unchanged: the signature is the encoding of what the key answers
  on the UTF-8 bytes of that string, the id is the encoding of the first 16 bytes of the
  hash of the same bytes, and the run is the same when the key and the hash answer on no
  other message.
\<close>

theorem create_payment_intent_canonical_message:
  assumes "create_payment_intent E amt job_id expires_opt = Inr i"
  shows "let M = ''x402-payment:'' @ payer i @ '':'' @ py_str_json (amount i) @ '':'' @ jobId i @ '':'' @
                 timestamp i @ '':'' @ py_str (expiresIn i)
         in (\<exists>sig b58. signing_key_sign E (str_encode M) = Inr sig \<and>
                base64_b58encode E = Some b58 \<and> signature i = b58 sig \<and>
                intent_id i = b58 (take 16 (sha256 E (str_encode M)))) \<and>
            create_payment_intent
              (E\<lparr>signing_key_sign := answering_only (str_encode M) (Inl ''refused'')
                                        (signing_key_sign E),
                 sha256 := answering_only (str_encode M) [] (sha256 E)\<rparr>)
              amt job_id expires_opt = Inr i"
proof -
  define ex where "ex = (case expires_opt of None \<Rightarrow> (300::int) | Some e \<Rightarrow> e)"
  define M0 where "M0 = payment_message (public_key E) amt job_id (isoformat (utcnow E) @ ''Z'') ex"
  obtain sig b58 where
    s: "signing_key_sign E (str_encode M0) = Inr sig"
    and b: "base64_b58encode E = Some b58"
    and i: "i = \<lparr>intent_id = b58 (take 16 (sha256 E (str_encode M0))),
          payer = public_key E, amount = amt, jobId = job_id,
          timestamp = isoformat (utcnow E) @ ''Z'', expiresIn = ex, signature = b58 sig\<rparr>"
    using create_payment_intent_InrD [OF assms] unfolding M0_def ex_def by blast
  have M: "''x402-payment:'' @ payer i @ '':'' @ py_str_json (amount i) @ '':'' @ jobId i @ '':'' @
             timestamp i @ '':'' @ py_str (expiresIn i) = M0"
    by (simp add: i payment_message_def M0_def)
  have r: "create_payment_intent
              (E\<lparr>signing_key_sign := answering_only (str_encode M0) (Inl ''refused'')
                                        (signing_key_sign E),
                 sha256 := answering_only (str_encode M0) [] (sha256 E)\<rparr>)
              amt job_id expires_opt = Inr i"
    unfolding create_payment_intent_def Let_def ex_def [symmetric]
    using s b by (simp add: M0_def [symmetric] answering_only_def i)
  show ?thesis
    unfolding Let_def M using s b r by (simp add: i)
qed

theorem create_payment_intent_canonical_message_witness:
  "create_payment_intent demo_env (JInt 1000) ''job_1'' None =
     Inr \<lparr>intent_id = ''qqt1Zrqzyxwovq1u'', payer = ''PAYER'', amount = JInt 1000, jobId = ''job_1'',
          timestamp = ''2024-01-02T03:04:05.678901Z'', expiresIn = 300, signature = ''qqt1''\<rparr> \<and>
   (\<exists>sig b58. signing_key_sign demo_env
         (str_encode ''x402-payment:PAYER:1000:job_1:2024-01-02T03:04:05.678901Z:300'') = Inr sig \<and>
       base64_b58encode demo_env = Some b58 \<and> ''qqt1'' = b58 sig \<and>
       ''qqt1Zrqzyxwovq1u'' = b58 (take 16 (sha256 demo_env
         (str_encode ''x402-payment:PAYER:1000:job_1:2024-01-02T03:04:05.678901Z:300''))))"
  using create_payment_intent_canonical_message [OF demo_intent] demo_intent
  by (simp add: Let_def py_str_def digits.simps)

text \<open>
  C2. The claim is that \<open>create_payment_intent\<close> fails only when the key fails to sign
  and otherwise returns a complete intent. With the module \<open>base64\<close> of the standard
  library the call fails for every amount, job id and expiry although the key has signed:
  line 59 looks up \<open>base64.b58encode\<close>, which does not exist.
\<close>

theorem create_payment_intent_stock_base64:
  "create_payment_intent stock_env amt job_id expires_opt = Inl (AttributeError ''base64'' ''b58encode'')"
  by (simp add: create_payment_intent_def stock_env_def demo_env_def stdlib_base64_b58encode_def Let_def)

text \<open>
  C3. The claim is that the id of an intent is the base-58 encoding of the first 16 bytes
  of the hash of the canonical message, hence the same for two constructions with the
  same values. With the module \<open>base64\<close> of the standard library no construction
  produces an id, whatever the key, the hash and the clock of the client: it ends with the
  exception of the key or, once the key has signed, with the missing attribute of line
  59, which is also the encoder line 63 would call.
\<close>

theorem intent_id_stock_base64:
  "create_payment_intent (E\<lparr>base64_b58encode := stdlib_base64_b58encode\<rparr>) amt job_id expires_opt =
     (case signing_key_sign E (str_encode (payment_message (public_key E) amt job_id
              (isoformat (utcnow E) @ ''Z'')
              (case expires_opt of None \<Rightarrow> 300 | Some e \<Rightarrow> e))) of
        Inl e \<Rightarrow> Inl (LibraryError e)
      | Inr sig \<Rightarrow> Inl (AttributeError ''base64'' ''b58encode''))"
  by (simp add: create_payment_intent_def stdlib_base64_b58encode_def Let_def split: sum.splits)

text \<open>Widths of the zero-padded fields of a timestamp.\<close>

lemma length_digits_le: "n < 10 ^ w \<Longrightarrow> 0 < w \<Longrightarrow> length (digits n) \<le> w"
proof (induction w arbitrary: n)
  case 0
  then show ?case by simp
next
  case (Suc w)
  show ?case
  proof (cases "n < 10")
    case True
    then show ?thesis by (simp add: digits.simps [of n])
  next
    case False
    with Suc.prems have w: "0 < w" by (cases w) auto
    from Suc.prems have "n div 10 < 10 ^ w" by (simp add: less_mult_imp_div_less mult.commute)
    from Suc.IH [OF this w] False show ?thesis by (simp add: digits.simps [of n])
  qed
qed

lemma length_zero_pad: "n < 10 ^ w \<Longrightarrow> 0 < w \<Longrightarrow> length (zero_pad w n) = w"
  using length_digits_le [of n w] by (simp add: zero_pad_def)

lemma length_iso_seconds: "valid_datetime d \<Longrightarrow> length (iso_seconds d) = 19"
  by (simp add: valid_datetime_def iso_seconds_def length_zero_pad)

text \<open>
  C4, as amended. The timestamp of an intent is \<open>utcnow().isoformat() + 'Z'\<close>: the
  19 characters \<open>YYYY-MM-DDTHH:MM:SS\<close>, then a point and the six digits of the
  microsecond field unless that field is zero, then \<open>Z\<close>; 27 characters, or 20 when the
  clock reading has no microseconds.
\<close>

theorem create_payment_intent_timestamp:
  assumes "create_payment_intent E amt job_id expires_opt = Inr i"
    and "valid_datetime (utcnow E)"
  shows "timestamp i = isoformat (utcnow E) @ ''Z'' \<and>
         take 19 (timestamp i) = iso_seconds (utcnow E) \<and>
         drop 19 (timestamp i) =
           (if microsecond (utcnow E) = 0 then ''Z''
            else ''.'' @ zero_pad 6 (microsecond (utcnow E)) @ ''Z'') \<and>
         length (timestamp i) = (if microsecond (utcnow E) = 0 then 20 else 27)"
proof -
  have t: "timestamp i = isoformat (utcnow E) @ ''Z''"
    using create_payment_intent_InrD [OF assms(1)] by auto
  have m: "length (zero_pad 6 (microsecond (utcnow E))) = 6"
    using assms(2) by (simp add: valid_datetime_def length_zero_pad)
  note l = length_iso_seconds [OF assms(2)]
  show ?thesis
    unfolding t isoformat_def using l m by simp
qed

theorem create_payment_intent_timestamp_witness:
  "create_payment_intent demo_env (JInt 1000) ''job_1'' None =
     Inr \<lparr>intent_id = ''qqt1Zrqzyxwovq1u'', payer = ''PAYER'', amount = JInt 1000, jobId = ''job_1'',
          timestamp = ''2024-01-02T03:04:05.678901Z'', expiresIn = 300, signature = ''qqt1''\<rparr> \<and>
   valid_datetime (utcnow demo_env) \<and> microsecond (utcnow demo_env) = 678901 \<and>
   drop 19 ''2024-01-02T03:04:05.678901Z'' = ''.'' @ zero_pad 6 678901 @ ''Z'' \<and>
   length ''2024-01-02T03:04:05.678901Z'' = 27"
proof -
  have v: "valid_datetime (utcnow demo_env)"
    by (simp add: valid_datetime_def demo_env_def demo_now_def)
  have u: "microsecond (utcnow demo_env) = 678901"
    by (simp add: demo_env_def demo_now_def)
  show ?thesis
    using create_payment_intent_timestamp [OF demo_intent v] v u demo_intent by simp
qed

text \<open>
  C4, as stated, fails: a clock reading with 678901 microseconds gives a timestamp with
  six sub-second digits.
\<close>

theorem timestamp_second_precision_counterexample:
  "microsecond (utcnow demo_env) = 678901 \<and>
   create_payment_intent demo_env (JInt 1000) ''job_1'' None =
     Inr \<lparr>intent_id = ''qqt1Zrqzyxwovq1u'', payer = ''PAYER'', amount = JInt 1000, jobId = ''job_1'',
          timestamp = ''2024-01-02T03:04:05.678901Z'', expiresIn = 300, signature = ''qqt1''\<rparr>"
  using demo_intent by (simp add: demo_env_def demo_now_def)

subsection \<open>The submission\<close>

text \<open>What a posted request tells about the run that posted it.\<close>

lemma submit_job_sentD:
  assumes "r \<in> set (fst (submit_job E job_type cfg))"
  shows "\<exists>pricing amt intent.
     get_pricing E (Some job_type) = Inr pricing \<and>
     subscript pricing ''minimumPayment'' = Inr amt \<and>
     create_payment_intent E amt (''job_'' @ py_str (py_int (time_time E))) None = Inr intent \<and>
     fst (submit_job E job_type cfg) = [r] \<and>
     r = submit_request E intent job_type cfg"
  using assms unfolding submit_job_def Let_def
  by (auto split: sum.splits)

text \<open>
  C6, as amended. Every request \<open>submit_job\<close> posts has the submission as its body:
  the job type and the configuration it was given and the intent
  \<open>create_payment_intent\<close> returned. Its headers repeat the fields of that intent: the
  id, the payer, the signature, the job id and the timestamp as they are, the expiry and
  the amount as \<open>str\<close> of the body's value. For the expiry, and for an amount that is an
  integer, that is the decimal text the JSON body has for the field.
\<close>

theorem submit_job_request_headers:
  assumes "r \<in> set (fst (submit_job E job_type cfg))"
  shows "jobType (body r) = job_type \<and> config (body r) = cfg \<and>
         (\<exists>amt. create_payment_intent E amt (jobId (payment (body r))) None
                  = Inr (payment (body r))) \<and>
         headers r =
           [(''Content-Type'', ''application/json''),
            (''X-Payment-Intent-ID'', intent_id (payment (body r))),
            (''X-Payer'', payer (payment (body r))),
            (''X-Payment-Signature'', signature (payment (body r))),
            (''X-Payment-Amount'', py_str_json (amount (payment (body r)))),
            (''X-Job-ID'', jobId (payment (body r))),
            (''X-Timestamp'', timestamp (payment (body r))),
            (''X-Expires-In'', py_str (expiresIn (payment (body r))))] \<and>
         map_of (headers r) ''X-Expires-In'' = json_literal (JInt (expiresIn (payment (body r)))) \<and>
         (\<forall>n. amount (payment (body r)) = JInt n \<longrightarrow>
            map_of (headers r) ''X-Payment-Amount'' = json_literal (amount (payment (body r))))"
proof -
  obtain amt intent where
    c: "create_payment_intent E amt (''job_'' @ py_str (py_int (time_time E))) None = Inr intent"
    and r: "r = submit_request E intent job_type cfg"
    using submit_job_sentD [OF assms] by blast
  have j: "jobId intent = ''job_'' @ py_str (py_int (time_time E))"
    using create_payment_intent_InrD [OF c] by auto
  show ?thesis
    using c j by (auto simp: r submit_request_def submit_headers_def json_literal_def)
qed

theorem submit_job_request_headers_witness:
  "demo_request \<in> set (fst (submit_job demo_env ''inference_medium'' demo_config)) \<and>
   body demo_request =
     \<lparr>payment = demo_submitted_intent, jobType = ''inference_medium'', config = demo_config\<rparr> \<and>
   headers demo_request = demo_headers \<and>
   demo_headers =
     [(''Content-Type'', ''application/json''),
      (''X-Payment-Intent-ID'', intent_id demo_submitted_intent),
      (''X-Payer'', payer demo_submitted_intent),
      (''X-Payment-Signature'', signature demo_submitted_intent),
      (''X-Payment-Amount'', py_str_json (amount demo_submitted_intent)),
      (''X-Job-ID'', jobId demo_submitted_intent),
      (''X-Timestamp'', timestamp demo_submitted_intent),
      (''X-Expires-In'', py_str (expiresIn demo_submitted_intent))] \<and>
   amount demo_submitted_intent = JInt 1000 \<and>
   map_of demo_headers ''X-Payment-Amount'' = json_literal (JInt 1000) \<and>
   map_of demo_headers ''X-Expires-In'' = json_literal (JInt 300)"
proof -
  have h: "demo_request \<in> set (fst (submit_job demo_env ''inference_medium'' demo_config))"
    by (simp add: demo_submit)
  have a: "amount (payment (body demo_request)) = JInt 1000"
    "expiresIn (payment (body demo_request)) = 300"
    by (simp_all add: demo_request_def demo_submitted_intent_def)
  show ?thesis
    using submit_job_request_headers [OF h] h a
    by (simp add: demo_request_def demo_submitted_intent_def)
qed

text \<open>
  C6, as stated, fails: when the pricing service answers with the price \<open>true\<close>, the
  request is posted with the amount \<open>true\<close> in its body and the text \<open>True\<close> in the
  header \<open>X-Payment-Amount\<close>.
\<close>

theorem submit_job_request_headers_counterexample:
  "submit_job true_price_env ''inference_medium'' demo_config =
     ([true_price_request],
      Inr (JObj [(''jobId'', JStr ''job_1704164645''), (''status'', JStr ''pending'')])) \<and>
   amount (payment (body true_price_request)) = JBool True \<and>
   json_literal (amount (payment (body true_price_request))) = Some ''true'' \<and>
   map_of (headers true_price_request) ''X-Payment-Amount'' = Some ''True''"
proof -
  have p: "get_pricing true_price_env (Some ''inference_medium'')
             = Inr (JObj [(''minimumPayment'', JBool True)])"
    by (simp add: get_pricing_def demo_env_def true_price_env_def true_pricing_def response_json_def)
  have q: "requests_post true_price_env = (\<lambda>r. Inr demo_accepted)"
    "api_url true_price_env = ''http://localhost:3000/api''"
    "time_time true_price_env = time_time demo_env"
    by (simp_all add: demo_env_def true_price_env_def)
  have m: "payment_message ''PAYER'' (JBool True) ''job_1704164645'' ''2024-01-02T03:04:05.678901Z'' 300
             = ''x402-payment:PAYER:True:job_1704164645:2024-01-02T03:04:05.678901Z:300''"
    by (simp add: payment_message_def demo_py_str)
  have i: "create_payment_intent true_price_env (JBool True) ''job_1704164645'' None =
             Inr (payment (body true_price_request))"
    unfolding create_payment_intent_def demo_env_def true_price_env_def true_price_request_def
    by (simp add: Let_def m demo_timestamp str_encode_def utf8_char_def demo_b58_def)
  have r: "submit_request true_price_env (payment (body true_price_request))
             ''inference_medium'' demo_config = true_price_request"
    by (simp add: submit_request_def submit_headers_def q true_price_request_def demo_py_str)
  have a: "submit_response demo_accepted =
             Inr (JObj [(''jobId'', JStr ''job_1704164645''), (''status'', JStr ''pending'')])"
    by (simp add: submit_response_def demo_accepted_def response_json_def)
  have s: "submit_job true_price_env ''inference_medium'' demo_config =
     ([true_price_request],
      Inr (JObj [(''jobId'', JStr ''job_1704164645''), (''status'', JStr ''pending'')]))"
    unfolding submit_job_def p q(3) demo_job_id
    by (simp add: subscript_def i Let_def r q a)
  show ?thesis
    using s by (simp add: true_price_request_def json_literal_def)
qed

text \<open>
  C7. The claim is that a non-success response whose body cannot be parsed makes
  \<open>submit_job\<close> fail with its own error carrying the raw body. On a gateway's HTML
  page the call fails instead with the decoder's exception, raised by
  \<open>response.json()\<close> at line 127 before the message of line 128 is built; the same
  response makes \<open>get_job_status\<close> raise its error with the raw body.
\<close>

theorem submit_job_unparseable_error_body:
  "submit_job bad_gateway_env ''inference_medium'' demo_config = ([demo_request], Inl JSONDecodeError) \<and>
   requests_post bad_gateway_env demo_request = Inr bad_gateway \<and>
   resp_ok bad_gateway = False \<and> resp_text bad_gateway = ''<html>502 Bad Gateway</html>'' \<and>
   get_job_status (Inr bad_gateway) = Inl (StatusFetchFailed ''<html>502 Bad Gateway</html>'')"
  using demo_submit_bad_gateway
  by (simp add: bad_gateway_env_def bad_gateway_def get_job_status_def)

text \<open>
  The decimal text of a natural number determines the number: reading the digits back
  gives it.
\<close>

lemma of_char_digit: "d < 10 \<Longrightarrow> (of_char (''0123456789'' ! d) :: nat) = 48 + d"
proof -
  assume "d < 10"
  then have "d = 0 \<or> d = 1 \<or> d = 2 \<or> d = 3 \<or> d = 4 \<or> d = 5 \<or> d = 6 \<or> d = 7
    \<or> d = 8 \<or> d = 9"
    by arith
  then show ?thesis by (elim disjE) simp_all
qed

lemma digits_read_back:
  "foldl (\<lambda>a c. 10 * a + (of_char c - 48)) (0::nat) (digits n) = n"
proof (induction n rule: digits.induct)
  case (1 n)
  show ?case
  proof (cases "n < 10")
    case True
    then show ?thesis by (simp add: digits.simps [of n] of_char_digit)
  next
    case False
    with "1.IH" show ?thesis by (simp add: digits.simps [of n] of_char_digit)
  qed
qed

lemma digits_inj: "digits m = digits n \<Longrightarrow> m = n"
  by (metis digits_read_back)

text \<open>
  C9. The job id in every posted request is \<open>"job_"\<close> followed by the decimal text of
  the clock reading truncated to whole seconds (for a reading at or after the epoch, of
  its floor), and nothing else enters it: two submissions at or after the epoch post the
  same job id exactly when their clocks read within the same second, whatever their job
  types and configurations.
\<close>

theorem submit_job_job_id:
  assumes "r \<in> set (fst (submit_job E job_type cfg))"
    and "r' \<in> set (fst (submit_job E' job_type' cfg'))"
  shows "jobId (payment (body r)) = ''job_'' @ py_str (py_int (time_time E)) \<and>
         (0 \<le> time_time E \<longrightarrow>
            jobId (payment (body r)) = ''job_'' @ digits (nat \<lfloor>time_time E\<rfloor>)) \<and>
         (0 \<le> time_time E \<and> 0 \<le> time_time E' \<longrightarrow>
            (jobId (payment (body r')) = jobId (payment (body r))
               \<longleftrightarrow> \<lfloor>time_time E\<rfloor> = \<lfloor>time_time E'\<rfloor>))"
proof -
  have *: "jobId (payment (body x)) = ''job_'' @ py_str (py_int (time_time F))"
    if sent: "x \<in> set (fst (submit_job F jt cf))" for x F jt cf
  proof -
    obtain amt intent where
      c: "create_payment_intent F amt (''job_'' @ py_str (py_int (time_time F))) None = Inr intent"
      and r: "x = submit_request F intent jt cf"
      using submit_job_sentD [OF sent] by blast
    have "jobId intent = ''job_'' @ py_str (py_int (time_time F))"
      using create_payment_intent_InrD [OF c] by auto
    then show ?thesis by (simp add: r submit_request_def)
  qed
  have d: "py_str (py_int t) = digits (nat \<lfloor>t\<rfloor>)" if "0 \<le> t" for t :: rat
    using that by (simp add: py_int_def py_str_def)
  have inj: "digits (nat \<lfloor>t\<rfloor>) = digits (nat \<lfloor>t'\<rfloor>) \<longleftrightarrow> \<lfloor>t\<rfloor> = \<lfloor>t'\<rfloor>"
    if "0 \<le> t" "0 \<le> t'" for t t' :: rat
  proof
    assume "digits (nat \<lfloor>t\<rfloor>) = digits (nat \<lfloor>t'\<rfloor>)"
    then have "nat \<lfloor>t\<rfloor> = nat \<lfloor>t'\<rfloor>" by (rule digits_inj)
    moreover from that have "0 \<le> \<lfloor>t\<rfloor>" "0 \<le> \<lfloor>t'\<rfloor>" by simp_all
    ultimately show "\<lfloor>t\<rfloor> = \<lfloor>t'\<rfloor>" by (simp add: eq_nat_nat_iff)
  next
    assume "\<lfloor>t\<rfloor> = \<lfloor>t'\<rfloor>"
    then show "digits (nat \<lfloor>t\<rfloor>) = digits (nat \<lfloor>t'\<rfloor>)" by simp
  qed
  show ?thesis
    using * [OF assms(1)] * [OF assms(2)] d [of "time_time E"] d [of "time_time E'"]
      inj [of "time_time E'" "time_time E"]
    by auto
qed

theorem submit_job_job_id_witness:
  "demo_request \<in> set (fst (submit_job demo_env ''inference_medium'' demo_config)) \<and>
   demo_request_later \<in> set (fst (submit_job demo_env_later ''training_small'' JNull)) \<and>
   time_time demo_env = 1704164645 + 1 / 2 \<and> time_time demo_env_later = 1704164645 + 3 / 4 \<and>
   0 \<le> time_time demo_env \<and> 0 \<le> time_time demo_env_later \<and>
   \<lfloor>time_time demo_env\<rfloor> = \<lfloor>time_time demo_env_later\<rfloor> \<and>
   jobId (payment (body demo_request)) = ''job_1704164645'' \<and>
   jobId (payment (body demo_request_later)) = ''job_1704164645''"
proof -
  have h: "demo_request \<in> set (fst (submit_job demo_env ''inference_medium'' demo_config))"
    "demo_request_later \<in> set (fst (submit_job demo_env_later ''training_small'' JNull))"
    by (simp_all add: demo_submit demo_submit_later)
  have t: "time_time demo_env = 1704164645 + 1 / 2" "time_time demo_env_later = 1704164645 + 3 / 4"
    by (simp_all add: demo_env_def demo_env_later_def)
  have f: "\<lfloor>time_time demo_env\<rfloor> = 1704164645" "\<lfloor>time_time demo_env_later\<rfloor> = 1704164645"
    unfolding t by (simp_all add: floor_eq_iff)
  have j: "jobId (payment (body demo_request)) = ''job_1704164645''"
    by (simp add: demo_request_def demo_submitted_intent_def)
  have nn: "0 \<le> time_time demo_env" "0 \<le> time_time demo_env_later"
    unfolding t by simp_all
  have fe: "\<lfloor>time_time demo_env\<rfloor> = \<lfloor>time_time demo_env_later\<rfloor>"
    by (simp only: f)
  from submit_job_job_id [OF h] nn fe
  have "jobId (payment (body demo_request_later)) = jobId (payment (body demo_request))"
    by blast
  with j have j': "jobId (payment (body demo_request_later)) = ''job_1704164645''"
    by simp
  show ?thesis
    using h t nn fe j j' by blast
qed

text \<open>
  C10. Every request \<open>submit_job\<close> posts carries an intent that expires in 300 seconds,
  the default of \<open>create_payment_intent\<close>, in the body and in the header
  \<open>X-Expires-In\<close>.
\<close>

theorem submit_job_expires_in:
  assumes "r \<in> set (fst (submit_job E job_type cfg))"
  shows "expiresIn (payment (body r)) = 300 \<and>
         map_of (headers r) ''X-Expires-In'' = Some (py_str 300)"
proof -
  obtain amt intent where
    c: "create_payment_intent E amt (''job_'' @ py_str (py_int (time_time E))) None = Inr intent"
    and r: "r = submit_request E intent job_type cfg"
    using submit_job_sentD [OF assms] by blast
  have "expiresIn intent = 300"
    using create_payment_intent_InrD [OF c] by auto
  then show ?thesis
    by (simp add: r submit_request_def submit_headers_def)
qed

theorem submit_job_expires_in_witness:
  "demo_request \<in> set (fst (submit_job demo_env ''inference_medium'' demo_config)) \<and>
   expiresIn (payment (body demo_request)) = 300 \<and>
   map_of (headers demo_request) ''X-Expires-In'' = Some ''300''"
proof -
  have h: "demo_request \<in> set (fst (submit_job demo_env ''inference_medium'' demo_config))"
    by (simp add: demo_submit)
  show ?thesis
    using submit_job_expires_in [OF h] h by (simp add: demo_py_str)
qed

subsection \<open>Polling\<close>

text \<open>
  The loop body never raises the timeout, a body that lets the loop go on has seen a
  status that is none of \<open>completed\<close>, \<open>failed\<close>, \<open>cancelled\<close>, and a body that
  sees \<open>failed\<close> or \<open>cancelled\<close> raises the error of line 178. Then the two facts
  about whole runs: the shape of a run that times out, and that a run stops at the first
  poll whose body ends the call.
\<close>

lemma polls_simps [simp]:
  "polls [] = 0" "polls (Clock t # tr) = polls tr" "polls (Get u # tr) = Suc (polls tr)"
  "polls (Sleep d # tr) = polls tr"
  by (simp_all add: polls_def)

lemma passes_simps [simp]:
  "passes api job_id poll_interval [] = []"
  "passes api job_id poll_interval (t # ts) =
     Clock t # Get (status_url api job_id) # Sleep poll_interval # passes api job_id poll_interval ts"
  by (simp_all add: passes_def)

lemma loop_body_no_timeout: "loop_body poll_interval rp \<noteq> Some (Inl (WaitTimeout j m))"
  by (auto simp: loop_body_def get_job_status_def response_json_def subscript_def dict_get_def
      split: sum.splits option.splits json.splits if_splits)

lemma loop_body_None:
  "loop_body poll_interval rp = None \<Longrightarrow>
   \<exists>status s. get_job_status rp = Inr status \<and> subscript status ''status'' = Inr s \<and>
     s \<noteq> JStr ''completed'' \<and> s \<noteq> JStr ''failed'' \<and> s \<noteq> JStr ''cancelled'' \<and>
     0 \<le> poll_interval"
  by (auto simp: loop_body_def split: sum.splits if_splits)

lemma loop_body_terminated:
  assumes "get_job_status rp = Inr status" and "subscript status ''status'' = Inr s"
    and "s = JStr ''failed'' \<or> s = JStr ''cancelled''"
  shows "loop_body poll_interval rp =
     Some (Inl (JobTerminated s (case subscript status ''error'' of
                                   Inl e \<Rightarrow> JStr ''Unknown'' | Inr e \<Rightarrow> e)))"
proof -
  from assms(2) obtain kvs where k: "status = JObj kvs"
    by (cases status) (auto simp: subscript_def)
  show ?thesis
    using assms by (auto simp: loop_body_def k dict_get_def subscript_def split: option.splits)
qed

lemma wait_loop_timeout:
  "wait_loop float_sub api job_id poll_interval max_wait start_time clock server
     = (tr, Some (Inl (WaitTimeout j m))) \<Longrightarrow>
   polls tr < length clock \<and> polls tr \<le> length server \<and> j = job_id \<and> m = max_wait \<and>
   tr = passes api job_id poll_interval (take (polls tr) clock) @ [Clock (clock ! polls tr)] \<and>
   (\<forall>t \<in> set (take (polls tr) clock). float_sub t start_time < of_int max_wait) \<and>
   \<not> float_sub (clock ! polls tr) start_time < of_int max_wait \<and>
   (\<forall>rp \<in> set (take (polls tr) server). loop_body poll_interval rp = None)"
proof (induction clock arbitrary: server tr)
  case Nil
  then show ?case by simp
next
  case (Cons t clock)
  show ?case
  proof (cases "float_sub t start_time < of_int max_wait")
    case False
    with Cons.prems show ?thesis by auto
  next
    case True
    show ?thesis
    proof (cases server)
      case Nil
      with True Cons.prems show ?thesis by simp
    next
      case (Cons rp server')
      show ?thesis
      proof (cases "loop_body poll_interval rp")
        case (Some r)
        with True Cons Cons.prems loop_body_no_timeout [of poll_interval rp j m]
        show ?thesis by simp
      next
        case None
        with True Cons Cons.prems obtain tr' where
          w: "wait_loop float_sub api job_id poll_interval max_wait start_time clock server'
                = (tr', Some (Inl (WaitTimeout j m)))"
          and tr: "tr = Clock t # Get (status_url api job_id) # Sleep poll_interval # tr'"
          by (auto split: prod.splits)
        from Cons.IH [OF w] True None show ?thesis
          by (simp add: tr Cons)
      qed
    qed
  qed
qed


lemma wait_loop_body_ends:
  "wait_loop float_sub api job_id poll_interval max_wait start_time clock server = (tr, res) \<Longrightarrow>
   k < polls tr \<Longrightarrow> loop_body poll_interval (server ! k) = Some r \<Longrightarrow>
   polls tr = Suc k \<and> last tr = Get (status_url api job_id) \<and> res = Some r"
proof (induction clock arbitrary: server tr k)
  case Nil
  then show ?case by simp
next
  case (Cons t clock)
  show ?case
  proof (cases "float_sub t start_time < of_int max_wait")
    case False
    with Cons.prems show ?thesis by auto
  next
    case True
    show ?thesis
    proof (cases server)
      case Nil
      with True Cons.prems show ?thesis by auto
    next
      case (Cons rp server')
      show ?thesis
      proof (cases "loop_body poll_interval rp")
        case (Some r')
        with True Cons Cons.prems show ?thesis by auto
      next
        case None
        with True Cons Cons.prems(1) obtain tr' where
          w: "wait_loop float_sub api job_id poll_interval max_wait start_time clock server' = (tr', res)"
          and tr: "tr = Clock t # Get (status_url api job_id) # Sleep poll_interval # tr'"
          by (auto split: prod.splits)
        from Cons.prems(3) None Cons obtain k' where k: "k = Suc k'"
          by (cases k) auto
        from Cons.prems(2) have lt: "k' < polls tr'" by (simp add: tr k)
        from Cons.prems(3) have b: "loop_body poll_interval (server' ! k') = Some r"
          by (simp add: k Cons)
        from lt have ne: "tr' \<noteq> []" by auto
        from Cons.IH [OF w lt b] ne show ?thesis by (simp add: tr k)
      qed
    qed
  qed
qed

lemma pending_body: 
  "get_job_status rp = Inr status \<Longrightarrow> subscript status ''status'' = Inr (JStr ''pending'') \<Longrightarrow>
   0 \<le> poll_interval \<Longrightarrow> loop_body poll_interval rp = None"
  by (simp add: loop_body_def)

lemma loop_body_completed:
  "get_job_status rp = Inr status \<Longrightarrow> subscript status ''status'' = Inr (JStr ''completed'') \<Longrightarrow>
   loop_body poll_interval rp = Some (Inr status)"
  by (simp add: loop_body_def)

text \<open>The sample answers and the sample runs, evaluated.\<close>

lemma pending_reply_status:
  "get_job_status pending_reply = Inr (JObj [(''status'', JStr ''pending'')])"
  "subscript (JObj [(''status'', JStr ''pending'')]) ''status'' = Inr (JStr ''pending'')"
  by (simp_all add: get_job_status_def pending_reply_def response_json_def subscript_def)

lemma failed_reply_status:
  "get_job_status failed_reply =
     Inr (JObj [(''status'', JStr ''failed''), (''error'', JStr ''out of memory'')])"
  "subscript (JObj [(''status'', JStr ''failed''), (''error'', JStr ''out of memory'')]) ''status''
     = Inr (JStr ''failed'')"
  "subscript (JObj [(''status'', JStr ''failed''), (''error'', JStr ''out of memory'')]) ''error''
     = Inr (JStr ''out of memory'')"
  by (simp_all add: get_job_status_def failed_reply_def response_json_def subscript_def)

lemma completed_reply_status:
  "get_job_status completed_reply =
     Inr (JObj [(''status'', JStr ''completed''), (''result'', JInt 42)])"
  "subscript (JObj [(''status'', JStr ''completed''), (''result'', JInt 42)]) ''status''
     = Inr (JStr ''completed'')"
  by (simp_all add: get_job_status_def completed_reply_def response_json_def subscript_def)

lemma pending_reply_body: "0 \<le> d \<Longrightarrow> loop_body d pending_reply = None"
  using pending_reply_status by (rule pending_body)

lemma failed_reply_body:
  "loop_body d failed_reply = Some (Inl (JobTerminated (JStr ''failed'') (JStr ''out of memory'')))"
  using loop_body_terminated [OF failed_reply_status(1,2), of d] by (simp add: failed_reply_status(3))

lemma completed_reply_body:
  "loop_body d completed_reply =
     Some (Inr (JObj [(''status'', JStr ''completed''), (''result'', JInt 42)]))"
  using completed_reply_status by (rule loop_body_completed)

lemma demo_timeout_run:
  "wait_for_completion exact_sub demo_api ''job_1'' 1 1 [100, 100 + 1 / 4, 101 + 1 / 2]
      [pending_reply, pending_reply] =
     ([Clock 100, Clock (100 + 1 / 4), Get (status_url demo_api ''job_1''), Sleep 1,
       Clock (101 + 1 / 2)], Some (Inl (WaitTimeout ''job_1'' 1)))"
  by (simp add: wait_for_completion_def pending_reply_body exact_sub_def)

lemma demo_failed_run:
  "wait_for_completion exact_sub demo_api ''job_1'' 5 300 [0, 0, 5, 10] [pending_reply, failed_reply] =
     ([Clock 0, Clock 0, Get (status_url demo_api ''job_1''), Sleep 5, Clock 5,
       Get (status_url demo_api ''job_1'')],
      Some (Inl (JobTerminated (JStr ''failed'') (JStr ''out of memory''))))"
  by (simp add: wait_for_completion_def pending_reply_body failed_reply_body exact_sub_def)

lemma demo_completed_run:
  "wait_for_completion exact_sub demo_api ''job_1'' 5 300 [0, 0, 5, 10]
      [pending_reply, completed_reply] =
     ([Clock 0, Clock 0, Get (status_url demo_api ''job_1''), Sleep 5, Clock 5,
       Get (status_url demo_api ''job_1'')],
      Some (Inr (JObj [(''status'', JStr ''completed''), (''result'', JInt 42)])))"
  by (simp add: wait_for_completion_def pending_reply_body completed_reply_body exact_sub_def)

text \<open>
  C5, as amended. Each pass of the loop first compares the elapsed time it computes with
  \<open>max_wait\<close> and raises the timeout when it is not below; only then does it fetch the
  status, return it if completed, raise if failed or cancelled, and otherwise sleep
  \<open>poll_interval\<close> and start the next pass. The theorem says so in three parts.
  A run that times out is the reading of \<open>start_time\<close>, then for each poll a clock
  reading within the limit, the request and the sleep, then one clock reading not within
  the limit; every poll in it saw a status that is not terminal, and there may be no poll
  at all. A poll that sees \<open>completed\<close>, \<open>failed\<close> or \<open>cancelled\<close> is the last
  effect of its run, which returns the status object in the first case and raises the
  error of line 178 in the other two. With \<open>poll_interval = 1\<close>, \<open>max_wait = 1\<close> and a
  server that reports \<open>pending\<close>, a run whose computed elapsed time is below a second at
  the first test and not below a second at the test after the sleep makes exactly one
  poll and then times out.
\<close>

theorem wait_for_completion_order:
  "(wait_for_completion float_sub api job_id poll_interval max_wait (start_time # clock) server
      = (tr, Some (Inl (WaitTimeout j m))) \<longrightarrow>
      polls tr < length clock \<and> polls tr \<le> length server \<and>
      tr = Clock start_time # passes api job_id poll_interval (take (polls tr) clock)
             @ [Clock (clock ! polls tr)] \<and>
      (\<forall>t \<in> set (take (polls tr) clock). float_sub t start_time < of_int max_wait) \<and>
      \<not> float_sub (clock ! polls tr) start_time < of_int max_wait \<and>
      (\<forall>rp \<in> set (take (polls tr) server).
         \<exists>status s. get_job_status rp = Inr status \<and> subscript status ''status'' = Inr s \<and>
           s \<noteq> JStr ''completed'' \<and> s \<noteq> JStr ''failed'' \<and> s \<noteq> JStr ''cancelled'')) \<and>
   (wait_for_completion float_sub api job_id poll_interval max_wait clock2 server2 = (tr2, res2) \<and>
    k < polls tr2 \<and> get_job_status (server2 ! k) = Inr status2 \<and>
    subscript status2 ''status'' = Inr s2 \<and>
    (s2 = JStr ''completed'' \<or> s2 = JStr ''failed'' \<or> s2 = JStr ''cancelled'') \<longrightarrow>
      polls tr2 = Suc k \<and> last tr2 = Get (status_url api job_id) \<and>
      res2 = Some (if s2 = JStr ''completed'' then Inr status2
                   else Inl (JobTerminated s2 (case subscript status2 ''error'' of
                                                 Inl e \<Rightarrow> JStr ''Unknown'' | Inr e \<Rightarrow> e)))) \<and>
   (get_job_status rp = Inr status1 \<and> subscript status1 ''status'' = Inr (JStr ''pending'') \<and>
    float_sub t1 start1 < 1 \<and> \<not> float_sub t2 start1 < 1 \<longrightarrow>
      wait_for_completion float_sub api job_id 1 1 (start1 # t1 # t2 # clock') (rp # server') =
        ([Clock start1, Clock t1, Get (status_url api job_id), Sleep 1, Clock t2],
         Some (Inl (WaitTimeout job_id 1))))"
proof (intro conjI impI)
  assume a: "wait_for_completion float_sub api job_id poll_interval max_wait (start_time # clock) server
      = (tr, Some (Inl (WaitTimeout j m)))"
  then obtain tr' where
    w: "wait_loop float_sub api job_id poll_interval max_wait start_time clock server
          = (tr', Some (Inl (WaitTimeout j m)))"
    and tr: "tr = Clock start_time # tr'"
    by (auto simp: wait_for_completion_def split: prod.splits)
  note l = wait_loop_timeout [OF w]
  have p: "polls tr = polls tr'" by (simp add: tr)
  show "polls tr < length clock" "polls tr \<le> length server"
    "tr = Clock start_time # passes api job_id poll_interval (take (polls tr) clock)
             @ [Clock (clock ! polls tr)]"
    "\<forall>t \<in> set (take (polls tr) clock). float_sub t start_time < of_int max_wait"
    "\<not> float_sub (clock ! polls tr) start_time < of_int max_wait"
    unfolding p using l tr by simp_all
  from l have "\<forall>rp \<in> set (take (polls tr') server). loop_body poll_interval rp = None"
    by simp
  then show "\<forall>rp \<in> set (take (polls tr) server).
         \<exists>status s. get_job_status rp = Inr status \<and> subscript status ''status'' = Inr s \<and>
           s \<noteq> JStr ''completed'' \<and> s \<noteq> JStr ''failed'' \<and> s \<noteq> JStr ''cancelled''"
    unfolding p using loop_body_None [of poll_interval] by blast
next
  assume h: "wait_for_completion float_sub api job_id poll_interval max_wait clock2 server2 = (tr2, res2) \<and>
    k < polls tr2 \<and> get_job_status (server2 ! k) = Inr status2 \<and>
    subscript status2 ''status'' = Inr s2 \<and>
    (s2 = JStr ''completed'' \<or> s2 = JStr ''failed'' \<or> s2 = JStr ''cancelled'')"
  then obtain start_time' clock2' tr' where
    w: "wait_loop float_sub api job_id poll_interval max_wait start_time' clock2' server2 = (tr', res2)"
    and tr: "tr2 = Clock start_time' # tr'"
    by (cases clock2) (auto simp: wait_for_completion_def split: prod.splits)
  from h have lt: "k < polls tr'" by (simp add: tr)
  then have ne: "tr' \<noteq> []" by auto
  have b: "loop_body poll_interval (server2 ! k) =
      Some (if s2 = JStr ''completed'' then Inr status2
            else Inl (JobTerminated s2 (case subscript status2 ''error'' of
                                          Inl e \<Rightarrow> JStr ''Unknown'' | Inr e \<Rightarrow> e)))"
  proof (cases "s2 = JStr ''completed''")
    case True
    with h show ?thesis by (simp add: loop_body_completed)
  next
    case False
    with h have "s2 = JStr ''failed'' \<or> s2 = JStr ''cancelled''" by simp
    with h False show ?thesis by (simp add: loop_body_terminated)
  qed
  from wait_loop_body_ends [OF w lt b] ne
  show "polls tr2 = Suc k" "last tr2 = Get (status_url api job_id)"
    "res2 = Some (if s2 = JStr ''completed'' then Inr status2
                   else Inl (JobTerminated s2 (case subscript status2 ''error'' of
                                                 Inl e \<Rightarrow> JStr ''Unknown'' | Inr e \<Rightarrow> e)))"
    by (simp_all add: tr)
next
  assume "get_job_status rp = Inr status1 \<and> subscript status1 ''status'' = Inr (JStr ''pending'') \<and>
    float_sub t1 start1 < 1 \<and> \<not> float_sub t2 start1 < 1"
  then have b: "loop_body 1 rp = None" and c: "float_sub t1 start1 < 1" "\<not> float_sub t2 start1 < 1"
    by (auto simp: pending_body)
  show "wait_for_completion float_sub api job_id 1 1 (start1 # t1 # t2 # clock') (rp # server') =
        ([Clock start1, Clock t1, Get (status_url api job_id), Sleep 1, Clock t2],
         Some (Inl (WaitTimeout job_id 1)))"
    using b c by (simp add: wait_for_completion_def)
qed

theorem wait_for_completion_order_witness:
  "wait_for_completion exact_sub demo_api ''job_1'' 1 1 [100, 100 + 1 / 4, 101 + 1 / 2]
      [pending_reply, pending_reply] =
     ([Clock 100, Clock (100 + 1 / 4), Get (status_url demo_api ''job_1''), Sleep 1,
       Clock (101 + 1 / 2)], Some (Inl (WaitTimeout ''job_1'' 1))) \<and>
   polls [Clock 100, Clock (100 + 1 / 4), Get (status_url demo_api ''job_1''), Sleep 1,
       Clock (101 + 1 / 2)] = 1 \<and>
   get_job_status pending_reply = Inr (JObj [(''status'', JStr ''pending'')]) \<and>
   subscript (JObj [(''status'', JStr ''pending'')]) ''status'' = Inr (JStr ''pending'') \<and>
   exact_sub (100 + 1 / 4) 100 < 1 \<and> \<not> exact_sub (101 + 1 / 2) 100 < 1 \<and>
   wait_for_completion exact_sub demo_api ''job_1'' 5 300 [0, 0, 5, 10]
      [pending_reply, completed_reply] =
     ([Clock 0, Clock 0, Get (status_url demo_api ''job_1''), Sleep 5, Clock 5,
       Get (status_url demo_api ''job_1'')],
      Some (Inr (JObj [(''status'', JStr ''completed''), (''result'', JInt 42)]))) \<and>
   1 < polls [Clock 0, Clock 0, Get (status_url demo_api ''job_1''), Sleep 5, Clock 5,
       Get (status_url demo_api ''job_1'')] \<and>
   get_job_status ([pending_reply, completed_reply] ! 1) =
     Inr (JObj [(''status'', JStr ''completed''), (''result'', JInt 42)]) \<and>
   polls [Clock 0, Clock 0, Get (status_url demo_api ''job_1''), Sleep 5, Clock 5,
       Get (status_url demo_api ''job_1'')] = Suc 1"
proof -
  have e: "exact_sub (100 + 1 / 4) 100 < 1" "\<not> exact_sub (101 + 1 / 2) 100 < 1"
    by (simp_all add: exact_sub_def)
  have g: "get_job_status ([pending_reply, completed_reply] ! 1) =
     Inr (JObj [(''status'', JStr ''completed''), (''result'', JInt 42)])"
    by (simp add: completed_reply_status)
  have k: "1 < polls [Clock 0, Clock 0, Get (status_url demo_api ''job_1''), Sleep 5, Clock 5,
       Get (status_url demo_api ''job_1'')]" by simp
  from wait_for_completion_order [where float_sub = exact_sub and api = demo_api
      and job_id = "''job_1''" and poll_interval = 1 and max_wait = 1 and start_time = 100
      and clock = "[100 + 1 / 4, 101 + 1 / 2]" and server = "[pending_reply, pending_reply]",
      THEN conjunct1, rule_format, OF demo_timeout_run]
  have a: "polls [Clock 100, Clock (100 + 1 / 4), Get (status_url demo_api ''job_1''), Sleep 1,
       Clock (101 + 1 / 2)] < length [100 + 1 / 4, 101 + 1 / 2 :: rat]"
    by simp
  from wait_for_completion_order [where float_sub = exact_sub and api = demo_api
      and job_id = "''job_1''" and poll_interval = 5 and max_wait = 300
      and ?clock2.0 = "[0, 0, 5, 10]" and ?server2.0 = "[pending_reply, completed_reply]"
      and k = 1 and ?s2.0 = "JStr ''completed''", THEN conjunct2, THEN conjunct1, rule_format,
      OF conjI [OF demo_completed_run conjI [OF k conjI [OF g
           conjI [OF completed_reply_status(2)]]]]]
  have c: "polls [Clock 0, Clock 0, Get (status_url demo_api ''job_1''), Sleep 5, Clock 5,
       Get (status_url demo_api ''job_1'')] = Suc 1"
    by simp
  from wait_for_completion_order [where float_sub = exact_sub and api = demo_api
      and job_id = "''job_1''" and rp = pending_reply and ?t1.0 = "100 + 1 / 4"
      and ?t2.0 = "101 + 1 / 2" and ?start1.0 = 100 and clock' = "[]"
      and server' = "[pending_reply]", THEN conjunct2, THEN conjunct2, rule_format,
      OF conjI [OF pending_reply_status(1) conjI [OF pending_reply_status(2) conjI [OF e]]]]
  have d: "wait_for_completion exact_sub demo_api ''job_1'' 1 1 [100, 100 + 1 / 4, 101 + 1 / 2]
      [pending_reply, pending_reply] =
     ([Clock 100, Clock (100 + 1 / 4), Get (status_url demo_api ''job_1''), Sleep 1,
       Clock (101 + 1 / 2)], Some (Inl (WaitTimeout ''job_1'' 1)))" .
  show ?thesis
    using a c d e g k demo_completed_run pending_reply_status by simp
qed

text \<open>
  C5, as stated, fails: with \<open>max_wait = 0\<close> the timeout is raised at the first test of
  the loop condition, before any status has been fetched.
\<close>

theorem wait_for_completion_order_counterexample:
  "wait_for_completion exact_sub demo_api ''job_1'' 1 0 [100, 100] [pending_reply, pending_reply] =
     ([Clock 100, Clock 100], Some (Inl (WaitTimeout ''job_1'' 0)))"
  by (simp add: wait_for_completion_def exact_sub_def)

text \<open>
  C8. Whenever a poll of \<open>wait_for_completion\<close> gets a status \<open>failed\<close> or
  \<open>cancelled\<close>, that poll is the last effect of the run, and the run ends with the error
  of line 178 carrying that status and the \<open>error\<close> field of the same answer
  (\<open>Unknown\<close> when it has none).
\<close>

theorem wait_for_completion_terminated:
  assumes "wait_for_completion float_sub api job_id poll_interval max_wait clock server = (tr, res)"
    and "k < polls tr"
    and "get_job_status (server ! k) = Inr status"
    and "subscript status ''status'' = Inr s"
    and "s = JStr ''failed'' \<or> s = JStr ''cancelled''"
  shows "polls tr = Suc k \<and> last tr = Get (status_url api job_id) \<and>
         res = Some (Inl (JobTerminated s (case subscript status ''error'' of
                                             Inl e \<Rightarrow> JStr ''Unknown'' | Inr e \<Rightarrow> e)))"
proof -
  from assms(1,2) obtain start_time clock' tr' where
    w: "wait_loop float_sub api job_id poll_interval max_wait start_time clock' server = (tr', res)"
    and tr: "tr = Clock start_time # tr'"
    by (cases clock) (auto simp: wait_for_completion_def split: prod.splits)
  from assms(2) have lt: "k < polls tr'" by (simp add: tr)
  then have ne: "tr' \<noteq> []" by auto
  note b = loop_body_terminated [OF assms(3,4,5), of poll_interval]
  from wait_loop_body_ends [OF w lt b] ne show ?thesis by (simp add: tr)
qed

theorem wait_for_completion_terminated_witness:
  "wait_for_completion exact_sub demo_api ''job_1'' 5 300 [0, 0, 5, 10] [pending_reply, failed_reply] =
     ([Clock 0, Clock 0, Get (status_url demo_api ''job_1''), Sleep 5, Clock 5,
       Get (status_url demo_api ''job_1'')],
      Some (Inl (JobTerminated (JStr ''failed'') (JStr ''out of memory'')))) \<and>
   1 < polls [Clock 0, Clock 0, Get (status_url demo_api ''job_1''), Sleep 5, Clock 5,
       Get (status_url demo_api ''job_1'')] \<and>
   get_job_status ([pending_reply, failed_reply] ! 1) =
     Inr (JObj [(''status'', JStr ''failed''), (''error'', JStr ''out of memory'')]) \<and>
   subscript (JObj [(''status'', JStr ''failed''), (''error'', JStr ''out of memory'')]) ''status''
     = Inr (JStr ''failed'') \<and>
   polls [Clock 0, Clock 0, Get (status_url demo_api ''job_1''), Sleep 5, Clock 5,
       Get (status_url demo_api ''job_1'')] = Suc 1"
proof -
  have k: "1 < polls [Clock 0, Clock 0, Get (status_url demo_api ''job_1''), Sleep 5, Clock 5,
       Get (status_url demo_api ''job_1'')]" by simp
  have g: "get_job_status ([pending_reply, failed_reply] ! 1) =
     Inr (JObj [(''status'', JStr ''failed''), (''error'', JStr ''out of memory'')])"
    by (simp add: failed_reply_status)
  have f: "JStr ''failed'' = JStr ''failed'' \<or> JStr ''failed'' = JStr ''cancelled''" by simp
  show ?thesis
    using wait_for_completion_terminated [OF demo_failed_run k g failed_reply_status(2) f]
      demo_failed_run g failed_reply_status(2)
    by simp
qed

end
